theory Spec2Isabelle
  imports Complex_Main
begin

section \<open>Python strings as the command handlers use them\<close>

text \<open>
  The handlers of \<^verbatim>\<open>commands.py\<close> read \<^verbatim>\<open>message.text\<close>, a Python \<^verbatim>\<open>str\<close>: a sequence
  of Unicode code points. A string is modelled as the list of its code points, so that
  \<^verbatim>\<open>str.split\<close>, \<^verbatim>\<open>str.isdigit\<close> and \<^verbatim>\<open>int\<close> see what Python sees (Cyrillic text
  included).
\<close>

type_synonym pystr = "nat list"

definition ascii :: "string \<Rightarrow> pystr" where
  "ascii s = map of_char s"

text \<open>
  \<^verbatim>\<open>str.isspace\<close> on one character, which is what \<^verbatim>\<open>str.split()\<close> without a separator
  splits at: U+0009..U+000D, U+001C..U+0020, U+0085, U+00A0, U+1680, U+2000..U+200A,
  U+2028, U+2029, U+202F, U+205F, U+3000.
\<close>

definition py_isspace :: "nat \<Rightarrow> bool" where
  "py_isspace c \<longleftrightarrow>
     (9 \<le> c \<and> c \<le> 13) \<or> (28 \<le> c \<and> c \<le> 32) \<or> c = 133 \<or> c = 160 \<or> c = 5760 \<or>
     (8192 \<le> c \<and> c \<le> 8202) \<or> c = 8232 \<or> c = 8233 \<or> c = 8239 \<or> c = 8287 \<or> c = 12288"

text \<open>
  \<^verbatim>\<open>s.split()\<close>: skip whitespace, cut a maximal run of other characters, repeat.
\<close>

function py_split :: "pystr \<Rightarrow> pystr list" where
  "py_split s =
     (if dropWhile py_isspace s = [] then []
      else takeWhile (\<lambda>c. \<not> py_isspace c) (dropWhile py_isspace s)
           # py_split (dropWhile (\<lambda>c. \<not> py_isspace c) (dropWhile py_isspace s)))"
  by pat_completeness auto

termination py_split
proof (relation "measure length")
  show "wf (measure length)"
    by simp
next
  fix s :: pystr
  assume nonempty: "dropWhile py_isspace s \<noteq> []"
  then obtain c cs where s1: "dropWhile py_isspace s = c # cs"
    by (cases "dropWhile py_isspace s") auto
  have "\<not> py_isspace c"
    using hd_dropWhile [of py_isspace s] nonempty s1 by simp
  then have "dropWhile (\<lambda>c. \<not> py_isspace c) (c # cs) = dropWhile (\<lambda>c. \<not> py_isspace c) cs"
    by simp
  moreover have "length (dropWhile (\<lambda>c. \<not> py_isspace c) cs) \<le> length cs"
    by (rule length_dropWhile_le)
  moreover have "length (c # cs) \<le> length s"
    using length_dropWhile_le [of py_isspace s] s1 by simp
  ultimately have "length (dropWhile (\<lambda>c. \<not> py_isspace c) (dropWhile py_isspace s)) < length s"
    using s1 by simp
  then show "(dropWhile (\<lambda>c. \<not> py_isspace c) (dropWhile py_isspace s), s) \<in> measure length"
    by simp
qed

declare py_split.simps [simp del]

text \<open>
  \<^verbatim>\<open>s.split(maxsplit=1)\<close>: after the first word the rest of the string is kept whole,
  its leading whitespace dropped and its trailing whitespace left in place; a rest that
  is all whitespace gives no second element.
\<close>

definition py_split_maxsplit1 :: "pystr \<Rightarrow> pystr list" where
  "py_split_maxsplit1 s =
     (if dropWhile py_isspace s = [] then []
      else
        let word = takeWhile (\<lambda>c. \<not> py_isspace c) (dropWhile py_isspace s);
            rest = dropWhile py_isspace
                     (dropWhile (\<lambda>c. \<not> py_isspace c) (dropWhile py_isspace s))
        in if rest = [] then [word] else [word, rest])"

text \<open>
  The characters with a decimal digit value (Unicode category Nd, Unicode 14.0 as in
  CPython 3.11) come in runs of ten, zero first; \<open>decimal_starts\<close> lists the code point
  of each zero. \<^verbatim>\<open>int\<close> reads exactly these.
\<close>

definition decimal_starts :: "nat list" where
  "decimal_starts =
     [48, 1632, 1776, 1984, 2406, 2534, 2662, 2790, 2918, 3046, 3174, 3302, 3430, 3558,
      3664, 3792, 3872, 4160, 4240, 6112, 6160, 6470, 6608, 6784, 6800, 6992, 7088, 7232,
      7248, 42528, 43216, 43264, 43472, 43504, 43600, 44016, 65296, 66720, 68912, 69734,
      69872, 69942, 70096, 70384, 70736, 70864, 71248, 71360, 71472, 71904, 72016, 72784,
      73040, 73120, 92768, 92864, 93008, 120782, 120792, 120802, 120812, 120822, 123200,
      123632, 125264, 130032]"

definition py_decimal_value :: "nat \<Rightarrow> nat option" where
  "py_decimal_value c =
     (case find (\<lambda>z. z \<le> c \<and> c < z + 10) decimal_starts of
        None \<Rightarrow> None
      | Some z \<Rightarrow> Some (c - z))"

text \<open>
  \<^verbatim>\<open>str.isdigit\<close> also accepts the characters that are digits without being decimal
  (superscripts, circled digits and the like): the ranges below, ends included.
\<close>

definition other_digit_ranges :: "(nat \<times> nat) list" where
  "other_digit_ranges =
     [(178, 179), (185, 185), (4969, 4977), (6618, 6618), (8304, 8304), (8308, 8313),
      (8320, 8329), (9312, 9320), (9332, 9340), (9352, 9360), (9450, 9450), (9461, 9469),
      (9471, 9471), (10102, 10110), (10112, 10120), (10122, 10130), (68160, 68163),
      (69216, 69224), (69714, 69722), (127232, 127242)]"

definition py_isdigit_char :: "nat \<Rightarrow> bool" where
  "py_isdigit_char c \<longleftrightarrow>
     py_decimal_value c \<noteq> None \<or> list_ex (\<lambda>(a, b). a \<le> c \<and> c \<le> b) other_digit_ranges"

definition py_isdigit :: "pystr \<Rightarrow> bool" where
  "py_isdigit s \<longleftrightarrow> s \<noteq> [] \<and> list_all py_isdigit_char s"

text \<open>
  The exceptions that the \<^verbatim>\<open>except Exception\<close> blocks of the handlers catch:
  \<^verbatim>\<open>ValueError\<close>, \<^verbatim>\<open>TimeoutError\<close> (what \<^verbatim>\<open>asyncio.wait_for\<close> raises), and any other
  subclass of \<^verbatim>\<open>Exception\<close>, by its name. Signals below \<^verbatim>\<open>Exception\<close> in the class
  hierarchy (interrupts, task cancellation) end the process or the task and are not
  part of the model.
\<close>

datatype exn = ValueError | TimeoutError | Exception string

fun digits_value :: "int \<Rightarrow> pystr \<Rightarrow> int option" where
  "digits_value acc [] = Some acc"
| "digits_value acc (c # cs) =
     (case py_decimal_value c of
        None \<Rightarrow> None
      | Some d \<Rightarrow> digits_value (10 * acc + int d) cs)"

text \<open>
  \<^verbatim>\<open>int(s)\<close> on a string of digit characters, the only strings \<^verbatim>\<open>cmd_history\<close> gives
  it: the decimal value, or \<^verbatim>\<open>ValueError\<close> when a character has no decimal value.
  (The interpreter's cap on the number of digits is above the 4096 characters of a
  Telegram message and is left out.)
\<close>

definition py_int :: "pystr \<Rightarrow> exn + int" where
  "py_int s =
     (case digits_value 0 s of
        None \<Rightarrow> Inl ValueError
      | Some n \<Rightarrow> if s = [] then Inl ValueError else Inr n)"


section \<open>Data model\<close>

text \<open>
  An emotions mapping is a Python \<^verbatim>\<open>dict\<close> from label to score. A \<^verbatim>\<open>dict\<close> iterates in
  insertion order, so it is the list of its items in that order. Scores are floats that
  the handlers only compare; they are read as real numbers (not-a-number is left out).
\<close>

type_synonym emotions = "(pystr \<times> real) list"

record message =
  from_user_id :: int
  message_text :: pystr

text \<open>
  Modelled from the spec: the records of the history store behind
  \<^verbatim>\<open>log_emotion_analysis\<close>, \<^verbatim>\<open>log_generation\<close> and \<^verbatim>\<open>get_user_history\<close>, whose code is
  not part of \<^verbatim>\<open>commands.py\<close>. An EmotionRecord holds user, emotions and time; a
  GenerationRecord holds user, request text, response text and time.
\<close>

datatype history_record =
  EmotionRecord (user_id: int) (emotions: emotions) (performed_at: nat)
| GenerationRecord (user_id: int) (request_text: pystr) (response_text: pystr) (performed_at: nat)

text \<open>
  One run of a \<^verbatim>\<open>check_health\<close> method: the time it takes to settle (\<open>None\<close>: it never
  does) and what it settles with, an exception or the truth value of its result.
\<close>

record probe =
  duration :: "nat option"
  outcome :: "exn + bool"

text \<open>
  The service clients are collaborators: \<^verbatim>\<open>analyze_emotions\<close> and \<^verbatim>\<open>generate_poem\<close>
  raise (\<open>Inl\<close>), return a falsy response (\<open>Inr None\<close>) or return a response object,
  which is modelled by the one field the handlers read from it (\<^verbatim>\<open>.emotions\<close>,
  \<^verbatim>\<open>.poem\<close>). The database handle is a service with a health check; what it stores is
  part of the world below.
\<close>

record service =
  check_health :: probe

record emotion_api = service +
  analyze_emotions :: "int \<Rightarrow> pystr \<Rightarrow> exn + emotions option"

record poetry_api = service +
  generate_poem :: "int \<Rightarrow> emotions \<Rightarrow> exn + pystr option"

type_synonym database = service

text \<open>
  \<^verbatim>\<open>gs()\<close>, the global state: each getter gives its handle or raises.
\<close>

record global_state =
  get_emotion_api :: "exn + emotion_api"
  get_poetry_api :: "exn + poetry_api"
  get_database :: "exn + database"

datatype service_name = Emotion | Poetry | Database

datatype status = Checking | Success | Error

datatype emoji = THINK | HOURGLASS | CHECK_MARK | CROSSOUT | THUMBS_UP | THUMBS_DOWN | WARNING

text \<open>
  What a handler sends to the chat. Each notice stands for one literal of the source:
  \<^item> \<open>MissingArgument c\<close>: the request to write a text after the command \<open>/c\<close>;
  \<^item> \<open>EmotionServiceUnavailable\<close>, \<open>PoetryServiceUnavailable\<close>: the service named is
    not available;
  \<^item> \<open>RecognizedEmotions\<close>, \<open>GeneratedPoem\<close>: the two results;
  \<^item> \<open>EmotionAnalysisError\<close>, \<open>PoemGenerationError\<close>, \<open>HistoryError\<close>: the notices of
    the three \<^verbatim>\<open>except Exception\<close> blocks;
  \<^item> \<open>HistoryEmpty\<close>: the history is empty;
  \<^item> \<open>HistoryListing es gs\<close>: the listing, one entry (number, time, label and score of
    the prevailing emotion) per emotion record and one (number, time, request,
    response) per generation; a section's heading is there when the section has entries;
  \<^item> \<open>HealthChecking\<close>, \<open>StatusTable\<close>, \<open>CriticalError\<close>: the messages of the health
    check; a line of the table is the emoji and the name of the service.
\<close>

datatype notice =
  MissingArgument string
| EmotionServiceUnavailable
| PoetryServiceUnavailable
| RecognizedEmotions emotions
| GeneratedPoem pystr
| EmotionAnalysisError
| PoemGenerationError
| HistoryEmpty
| HistoryListing "(nat \<times> nat \<times> pystr \<times> real) list" "(nat \<times> nat \<times> pystr \<times> pystr) list"
| HistoryError
| HealthChecking
| StatusTable "(emoji \<times> service_name) list"
| CriticalError exn

datatype log_entry =
  EmotionAnalysisErrorLog exn
| PoemGenerationErrorLog exn
| HistoryErrorLog exn
| HealthCheckFailedLog service_name exn

text \<open>
  The effects of a handler, in the order they happen: calls of the service clients and
  of the store's query, messages (\<^verbatim>\<open>reply\<close>, \<^verbatim>\<open>answer\<close>, \<^verbatim>\<open>edit_text\<close>), reactions and
  \<^verbatim>\<open>logging.error\<close>. Sending to the chat is taken to succeed.
\<close>

datatype event =
  AnalyzeEmotions int pystr
| GeneratePoem int emotions
| GetUserHistory int int
| Reply notice
| Answer notice
| EditText notice
| React emoji
| LogError log_entry

record world =
  store :: "history_record list"
  clock :: nat
  trace :: "event list"

definition emit :: "event \<Rightarrow> world \<Rightarrow> world" where
  "emit ev w = w\<lparr>trace := trace w @ [ev]\<rparr>"

text \<open>
  Modelled from the spec: \<^verbatim>\<open>database.log_emotion_analysis\<close> and
  \<^verbatim>\<open>database.log_generation\<close>, which are not in \<^verbatim>\<open>commands.py\<close>. The store is append-only;
  a write adds one record, stamped with the store's time, and does not fail.
\<close>

definition log_emotion_analysis :: "int \<Rightarrow> emotions \<Rightarrow> world \<Rightarrow> world" where
  "log_emotion_analysis uid es w = w\<lparr>store := store w @ [EmotionRecord uid es (clock w)]\<rparr>"

definition log_generation :: "int \<Rightarrow> pystr \<Rightarrow> pystr \<Rightarrow> world \<Rightarrow> world" where
  "log_generation uid req resp w =
     w\<lparr>store := store w @ [GenerationRecord uid req resp (clock w)]\<rparr>"

section \<open>The handlers of /emotions and /generate\<close>

text \<open>\<^verbatim>\<open>command, *args = xs\<close> raises \<^verbatim>\<open>ValueError\<close> on an empty list.\<close>

definition unpack_command :: "pystr list \<Rightarrow> exn + pystr \<times> pystr list" where
  "unpack_command xs = (case xs of [] \<Rightarrow> Inl ValueError | c # args \<Rightarrow> Inr (c, args))"

text \<open>\<^verbatim>\<open>args[0] if args else ""\<close>\<close>

definition first_arg :: "pystr list \<Rightarrow> pystr" where
  "first_arg args = (case args of [] \<Rightarrow> [] | a # _ \<Rightarrow> a)"

text \<open>
  The body of the \<^verbatim>\<open>try\<close> of \<^verbatim>\<open>cmd_emotions\<close>: \<open>Inl e\<close> when an exception leaves it,
  with the world as it was at that point.
\<close>

definition cmd_emotions_try :: "global_state \<Rightarrow> message \<Rightarrow> world \<Rightarrow> (exn + unit) \<times> world" where
  "cmd_emotions_try g m w =
     (case unpack_command (py_split_maxsplit1 (message_text m)) of
        Inl e \<Rightarrow> (Inl e, w)
      | Inr (command, args) \<Rightarrow>
          if first_arg args = [] then (Inr (), emit (Reply (MissingArgument ''emotions'')) w)
          else
            (case get_emotion_api g of
               Inl e \<Rightarrow> (Inl e, w)
             | Inr api \<Rightarrow>
                 let w1 = emit (AnalyzeEmotions (from_user_id m) (first_arg args)) w in
                 (case analyze_emotions api (from_user_id m) (first_arg args) of
                    Inl e \<Rightarrow> (Inl e, w1)
                  | Inr None \<Rightarrow> (Inr (), emit (Reply EmotionServiceUnavailable) w1)
                  | Inr (Some response) \<Rightarrow>
                      (case get_database g of
                         Inl e \<Rightarrow> (Inl e, w1)
                       | Inr database \<Rightarrow>
                           (Inr (),
                            emit (Reply (RecognizedEmotions response))
                              (log_emotion_analysis (from_user_id m) response w1))))))"

definition cmd_emotions :: "global_state \<Rightarrow> message \<Rightarrow> world \<Rightarrow> world" where
  "cmd_emotions g m w =
     (case cmd_emotions_try g m w of
        (Inr _, w') \<Rightarrow> w'
      | (Inl e, w') \<Rightarrow> emit (Reply EmotionAnalysisError) (emit (LogError (EmotionAnalysisErrorLog e)) w'))"

text \<open>The body of the \<^verbatim>\<open>try\<close> of \<^verbatim>\<open>cmd_format\<close>, the handler of /generate.\<close>

definition cmd_format_try :: "global_state \<Rightarrow> message \<Rightarrow> world \<Rightarrow> (exn + unit) \<times> world" where
  "cmd_format_try g m w =
     (case unpack_command (py_split_maxsplit1 (message_text m)) of
        Inl e \<Rightarrow> (Inl e, w)
      | Inr (command, args) \<Rightarrow>
          if first_arg args = [] then (Inr (), emit (Reply (MissingArgument ''generate'')) w)
          else
            (case get_emotion_api g of
               Inl e \<Rightarrow> (Inl e, w)
             | Inr emotion_api \<Rightarrow>
            (case get_poetry_api g of
               Inl e \<Rightarrow> (Inl e, w)
             | Inr poetry_api \<Rightarrow>
            (case get_database g of
               Inl e \<Rightarrow> (Inl e, w)
             | Inr database \<Rightarrow>
                 let w1 = emit (AnalyzeEmotions (from_user_id m) (first_arg args)) w in
                 (case analyze_emotions emotion_api (from_user_id m) (first_arg args) of
                    Inl e \<Rightarrow> (Inl e, w1)
                  | Inr None \<Rightarrow> (Inr (), emit (Reply EmotionServiceUnavailable) w1)
                  | Inr (Some emotions') \<Rightarrow>
                      let w2 = log_emotion_analysis (from_user_id m) emotions' w1;
                          w3 = emit (GeneratePoem (from_user_id m) emotions') w2 in
                      (case generate_poem poetry_api (from_user_id m) emotions' of
                         Inl e \<Rightarrow> (Inl e, w3)
                       | Inr None \<Rightarrow> (Inr (), emit (Reply PoetryServiceUnavailable) w3)
                       | Inr (Some poem) \<Rightarrow>
                           (Inr (),
                            emit (Reply (GeneratedPoem poem))
                              (log_generation (from_user_id m) (first_arg args) poem w3))))))))"

definition cmd_format :: "global_state \<Rightarrow> message \<Rightarrow> world \<Rightarrow> world" where
  "cmd_format g m w =
     (case cmd_format_try g m w of
        (Inr _, w') \<Rightarrow> w'
      | (Inl e, w') \<Rightarrow> emit (Reply PoemGenerationError) (emit (LogError (PoemGenerationErrorLog e)) w'))"

section \<open>The handler of /history\<close>

text \<open>
  Modelled from the spec: \<^verbatim>\<open>database.get_user_history\<close>, which is not in
  \<^verbatim>\<open>commands.py\<close>. It answers two independent queries, the emotion records and the
  generation records of the user, each most recent first and cut at \<open>limit\<close>.
\<close>

record user_history =
  emotion_rows :: "history_record list"
  generation_rows :: "history_record list"

fun is_emotion_of :: "int \<Rightarrow> history_record \<Rightarrow> bool" where
  "is_emotion_of uid (EmotionRecord u es t) = (u = uid)"
| "is_emotion_of uid (GenerationRecord u req resp t) = False"

fun is_generation_of :: "int \<Rightarrow> history_record \<Rightarrow> bool" where
  "is_generation_of uid (EmotionRecord u es t) = False"
| "is_generation_of uid (GenerationRecord u req resp t) = (u = uid)"

definition get_user_history :: "int \<Rightarrow> int \<Rightarrow> history_record list \<Rightarrow> user_history" where
  "get_user_history uid limit st =
     \<lparr>emotion_rows = take (nat limit) (rev (filter (is_emotion_of uid) st)),
      generation_rows = take (nat limit) (rev (filter (is_generation_of uid) st))\<rparr>"

text \<open>
  The limit of \<^verbatim>\<open>cmd_history\<close>, from \<^verbatim>\<open>args = message.text.split()[1:]\<close>:
  \<^verbatim>\<open>
  limit = 5
  if args and args[0].isdigit():
      limit = min(int(args[0]), 20)
  \<close>
\<close>

definition history_limit :: "pystr list \<Rightarrow> exn + int" where
  "history_limit args =
     (case args of
        [] \<Rightarrow> Inr 5
      | a # _ \<Rightarrow>
          if py_isdigit a
          then (case py_int a of Inl e \<Rightarrow> Inl e | Inr n \<Rightarrow> Inr (min n 20))
          else Inr 5)"

text \<open>
  \<^verbatim>\<open>max(items, key=...)\<close>: \<^verbatim>\<open>ValueError\<close> on an empty sequence; otherwise the first
  item is the candidate and a later item replaces it when its key is greater.
\<close>

fun max_from :: "('a \<Rightarrow> 'k::linorder) \<Rightarrow> 'a \<Rightarrow> 'a list \<Rightarrow> 'a" where
  "max_from key best [] = best"
| "max_from key best (x # xs) = max_from key (if key best < key x then x else best) xs"

definition py_max :: "('a \<Rightarrow> 'k::linorder) \<Rightarrow> 'a list \<Rightarrow> exn + 'a" where
  "py_max key xs = (case xs of [] \<Rightarrow> Inl ValueError | x # rest \<Rightarrow> Inr (max_from key x rest))"

text \<open>\<^verbatim>\<open>top_emotion = max(emotion.emotions.items(), key=lambda x: x[1])\<close>\<close>

definition top_emotion :: "emotions \<Rightarrow> exn + pystr \<times> real" where
  "top_emotion items = py_max snd items"

text \<open>
  The two loops over \<^verbatim>\<open>enumerate(..., 1)\<close>. A row of the other kind has not the
  attribute the loop reads, which in Python is an \<^verbatim>\<open>AttributeError\<close>.
\<close>

fun format_emotions :: "nat \<Rightarrow> history_record list \<Rightarrow> exn + (nat \<times> nat \<times> pystr \<times> real) list" where
  "format_emotions idx [] = Inr []"
| "format_emotions idx (EmotionRecord u es t # rest) =
     (case top_emotion es of
        Inl e \<Rightarrow> Inl e
      | Inr winner \<Rightarrow>
          (case format_emotions (Suc idx) rest of
             Inl e \<Rightarrow> Inl e
           | Inr entries \<Rightarrow> Inr ((idx, t, fst winner, snd winner) # entries)))"
| "format_emotions idx (GenerationRecord u req resp t # rest) = Inl (Exception ''AttributeError'')"

fun format_generations :: "nat \<Rightarrow> history_record list \<Rightarrow> exn + (nat \<times> nat \<times> pystr \<times> pystr) list" where
  "format_generations idx [] = Inr []"
| "format_generations idx (GenerationRecord u req resp t # rest) =
     (case format_generations (Suc idx) rest of
        Inl e \<Rightarrow> Inl e
      | Inr entries \<Rightarrow> Inr ((idx, t, req, resp) # entries))"
| "format_generations idx (EmotionRecord u es t # rest) = Inl (Exception ''AttributeError'')"

text \<open>
  The body of the \<^verbatim>\<open>try\<close> of \<^verbatim>\<open>cmd_history\<close>. \<open>tl\<close> is the slice \<^verbatim>\<open>[1:]\<close>, empty on
  an empty list in Python as in HOL.
\<close>

definition cmd_history_try :: "global_state \<Rightarrow> message \<Rightarrow> world \<Rightarrow> (exn + unit) \<times> world" where
  "cmd_history_try g m w =
     (case history_limit (tl (py_split (message_text m))) of
        Inl e \<Rightarrow> (Inl e, w)
      | Inr limit \<Rightarrow>
          (case get_database g of
             Inl e \<Rightarrow> (Inl e, w)
           | Inr database \<Rightarrow>
               let w1 = emit (GetUserHistory (from_user_id m) limit) w;
                   history = get_user_history (from_user_id m) limit (store w)
               in
                 if emotion_rows history = [] \<and> generation_rows history = []
                 then (Inr (), emit (Answer HistoryEmpty) w1)
                 else
                   (case (if emotion_rows history \<noteq> []
                          then format_emotions 1 (emotion_rows history) else Inr []) of
                      Inl e \<Rightarrow> (Inl e, w1)
                    | Inr es \<Rightarrow>
                        (case (if generation_rows history \<noteq> []
                               then format_generations 1 (generation_rows history) else Inr []) of
                           Inl e \<Rightarrow> (Inl e, w1)
                         | Inr gs \<Rightarrow> (Inr (), emit (Reply (HistoryListing es gs)) w1)))))"

definition cmd_history :: "global_state \<Rightarrow> message \<Rightarrow> world \<Rightarrow> world" where
  "cmd_history g m w =
     (case cmd_history_try g m w of
        (Inr _, w') \<Rightarrow> w'
      | (Inl e, w') \<Rightarrow> emit (Reply HistoryError) (emit (LogError (HistoryErrorLog e)) w'))"

section \<open>The handler of /health\<close>

text \<open>
  \<^verbatim>\<open>asyncio.wait_for(checker(), timeout)\<close>: the run's own result when it settles within
  the timeout, \<^verbatim>\<open>TimeoutError\<close> when it does not. A run that settles at the very end of
  the timeout counts as settled; the source calls it with \<^verbatim>\<open>timeout=10\<close>, for a coroutine
  and for a function run in a thread alike.
\<close>

definition wait_for :: "probe \<Rightarrow> nat \<Rightarrow> exn + bool" where
  "wait_for p timeout =
     (case duration p of
        None \<Rightarrow> Inl TimeoutError
      | Some d \<Rightarrow> if d \<le> timeout then outcome p else Inl TimeoutError)"

definition service_order :: "service_name list" where
  "service_order = [Emotion, Poetry, Database]"

text \<open>\<^verbatim>\<open>update_message\<close>: one line per service, in \<^verbatim>\<open>service_order\<close>.\<close>

definition status_line :: "(service_name \<Rightarrow> status) \<Rightarrow> service_name \<Rightarrow> emoji \<times> service_name" where
  "status_line st name =
     (if st name = Checking then (HOURGLASS, name)
      else if st name = Success then (CHECK_MARK, name)
      else (CROSSOUT, name))"

definition update_message :: "(service_name \<Rightarrow> status) \<Rightarrow> world \<Rightarrow> world" where
  "update_message st w = emit (EditText (StatusTable (map (status_line st) service_order))) w"

text \<open>
  \<^verbatim>\<open>check_service\<close> from the moment its \<^verbatim>\<open>wait_for\<close> is over: it sets the status of its
  service, logs an exception, and renders the table. Nothing is awaited between these
  steps, so no other task runs in between.
\<close>

definition check_service ::
  "service_name \<Rightarrow> probe \<Rightarrow> (service_name \<Rightarrow> status) \<times> world \<Rightarrow> (service_name \<Rightarrow> status) \<times> world" where
  "check_service name checker sw =
     (case wait_for checker 10 of
        Inr result \<Rightarrow>
          let st = (fst sw)(name := (if result then Success else Error))
          in (st, update_message st (snd sw))
      | Inl e \<Rightarrow>
          let st = (fst sw)(name := Error)
          in (st, update_message st (emit (LogError (HealthCheckFailedLog name e)) (snd sw))))"

text \<open>
  \<^verbatim>\<open>asyncio.gather\<close> over the three \<^verbatim>\<open>check_service\<close> tasks. The tasks are started
  together and each goes on when its own \<^verbatim>\<open>wait_for\<close> is over; \<open>schedule\<close> is the order
  in which that happens, which the event loop decides.
\<close>

fun gather ::
  "(service_name \<Rightarrow> probe) \<Rightarrow> service_name list \<Rightarrow> (service_name \<Rightarrow> status) \<times> world
     \<Rightarrow> (service_name \<Rightarrow> status) \<times> world" where
  "gather checkers [] sw = sw"
| "gather checkers (name # rest) sw = gather checkers rest (check_service name (checkers name) sw)"

definition final_emoji :: "(service_name \<Rightarrow> status) \<Rightarrow> emoji" where
  "final_emoji st = (if list_all (\<lambda>name. st name = Success) service_order then THUMBS_UP else THUMBS_DOWN)"

text \<open>
  \<^verbatim>\<open>service.check_health\<close> for each name of the dictionary of services that
  \<^verbatim>\<open>cmd_health\<close> builds.
\<close>

definition service_checker :: "emotion_api \<Rightarrow> poetry_api \<Rightarrow> database \<Rightarrow> service_name \<Rightarrow> probe" where
  "service_checker emotion poetry database name =
     (case name of
        Emotion \<Rightarrow> check_health emotion
      | Poetry \<Rightarrow> check_health poetry
      | Database \<Rightarrow> check_health database)"

text \<open>
  The body of the \<^verbatim>\<open>try\<close> of \<^verbatim>\<open>cmd_health\<close>. The dictionary of the services is built
  first, calling the three getters in turn. The status map is returned with the world,
  so that statements can speak about the local variable \<^verbatim>\<open>status\<close>.
\<close>

definition cmd_health_try ::
  "global_state \<Rightarrow> service_name list \<Rightarrow> (service_name \<Rightarrow> status) \<times> world
     \<Rightarrow> (exn + unit) \<times> (service_name \<Rightarrow> status) \<times> world" where
  "cmd_health_try g schedule sw =
     (let w1 = update_message (fst sw) (emit (React THINK) (snd sw)) in
      (case get_emotion_api g of
         Inl e \<Rightarrow> (Inl e, fst sw, w1)
       | Inr emotion \<Rightarrow>
      (case get_poetry_api g of
         Inl e \<Rightarrow> (Inl e, fst sw, w1)
       | Inr poetry \<Rightarrow>
      (case get_database g of
         Inl e \<Rightarrow> (Inl e, fst sw, w1)
       | Inr database \<Rightarrow>
           let sw2 = gather (service_checker emotion poetry database) schedule (fst sw, w1)
           in (Inr (), fst sw2, emit (React (final_emoji (fst sw2))) (snd sw2))))))"

definition cmd_health ::
  "global_state \<Rightarrow> message \<Rightarrow> service_name list \<Rightarrow> world \<Rightarrow> (service_name \<Rightarrow> status) \<times> world" where
  "cmd_health g m schedule w =
     (case cmd_health_try g schedule (\<lambda>name. Checking, emit (Reply HealthChecking) w) of
        (Inr _, st, w') \<Rightarrow> (st, w')
      | (Inl e, st, w') \<Rightarrow> (st, emit (React WARNING) (emit (EditText (CriticalError e)) w')))"

section \<open>A sample deployment\<close>

text \<open>
  Concrete collaborators, a message and an initial world, at which the theorems below
  are instantiated.
\<close>

definition healthy :: probe where
  "healthy = \<lparr>duration = Some 1, outcome = Inr True\<rparr>"

definition no_emotions :: emotion_api where
  "no_emotions = \<lparr>check_health = healthy, analyze_emotions = (\<lambda>uid t. Inr None)\<rparr>"

definition happy_sad :: emotion_api where
  "happy_sad = \<lparr>check_health = healthy,
     analyze_emotions = (\<lambda>uid t. Inr (Some [(ascii ''happy'', 9 / 10), (ascii ''sad'', 1 / 10)]))\<rparr>"

definition poet :: poetry_api where
  "poet = \<lparr>check_health = healthy, generate_poem = (\<lambda>uid es. Inr (Some (ascii ''Joy flows'')))\<rparr>"

definition no_poet :: poetry_api where
  "no_poet = \<lparr>check_health = healthy, generate_poem = (\<lambda>uid es. Inr None)\<rparr>"

definition globals :: "emotion_api \<Rightarrow> poetry_api \<Rightarrow> global_state" where
  "globals ea pa = \<lparr>get_emotion_api = Inr ea, get_poetry_api = Inr pa,
     get_database = Inr \<lparr>check_health = healthy\<rparr>\<rparr>"

definition start :: world where
  "start = \<lparr>store = [], clock = 100, trace = []\<rparr>"

definition msg :: "string \<Rightarrow> message" where
  "msg s = \<lparr>from_user_id = 7, message_text = ascii s\<rparr>"

definition tied :: emotions where
  "tied = [(ascii ''calm'', 1 / 2), (ascii ''happy'', 9 / 10), (ascii ''surprise'', 9 / 10)]"

definition logged_blank :: world where
  "logged_blank = \<lparr>store = [EmotionRecord 7 [] 100], clock = 200, trace = []\<rparr>"

text \<open>
  The number that a string of the ASCII digits \<^verbatim>\<open>0\<close> to \<^verbatim>\<open>9\<close> denotes, for the statements
  about the limit of \<^verbatim>\<open>cmd_history\<close>.
\<close>

definition ascii_decimal :: "pystr \<Rightarrow> int" where
  "ascii_decimal s = foldl (\<lambda>n c. 10 * n + (int c - 48)) 0 s"



section \<open>Splitting the message text\<close>

lemma split1_second_nonempty:
  assumes "py_split_maxsplit1 s = [c, t]"
  shows "t \<noteq> []"
proof -
  define A where "A \<longleftrightarrow> dropWhile py_isspace s = []"
  define W where "W = takeWhile (\<lambda>c. \<not> py_isspace c) (dropWhile py_isspace s)"
  define R where "R = dropWhile py_isspace (dropWhile (\<lambda>c. \<not> py_isspace c) (dropWhile py_isspace s))"
  have "(if A then [] else if R = [] then [W] else [W, R]) = [c, t]"
    using assms unfolding py_split_maxsplit1_def Let_def A_def W_def R_def .
  then show ?thesis
    by (cases A; cases "R = []") simp_all
qed

lemma split1_shape:
  "py_split_maxsplit1 s = [] \<or> (\<exists>c. py_split_maxsplit1 s = [c])
   \<or> (\<exists>c t. py_split_maxsplit1 s = [c, t] \<and> t \<noteq> [])"
proof -
  define A where "A \<longleftrightarrow> dropWhile py_isspace s = []"
  define W where "W = takeWhile (\<lambda>c. \<not> py_isspace c) (dropWhile py_isspace s)"
  define R where "R = dropWhile py_isspace (dropWhile (\<lambda>c. \<not> py_isspace c) (dropWhile py_isspace s))"
  have "py_split_maxsplit1 s = (if A then [] else if R = [] then [W] else [W, R])"
    unfolding py_split_maxsplit1_def Let_def A_def W_def R_def ..
  then show ?thesis
    by (cases A; cases "R = []") simp_all
qed

section \<open>/generate: the chained operation\<close>

lemma cmd_format_try_called:
  assumes "py_split_maxsplit1 (message_text m) = [command, txt]"
    and "get_emotion_api g = Inr ea" and "get_poetry_api g = Inr pa" and "get_database g = Inr d"
  shows "cmd_format_try g m w =
     (case analyze_emotions ea (from_user_id m) txt of
        Inl e \<Rightarrow> (Inl e, emit (AnalyzeEmotions (from_user_id m) txt) w)
      | Inr None \<Rightarrow> (Inr (), emit (Reply EmotionServiceUnavailable) (emit (AnalyzeEmotions (from_user_id m) txt) w))
      | Inr (Some es) \<Rightarrow>
          (case generate_poem pa (from_user_id m) es of
             Inl e \<Rightarrow> (Inl e, emit (GeneratePoem (from_user_id m) es)
                          (log_emotion_analysis (from_user_id m) es (emit (AnalyzeEmotions (from_user_id m) txt) w)))
           | Inr None \<Rightarrow> (Inr (), emit (Reply PoetryServiceUnavailable) (emit (GeneratePoem (from_user_id m) es)
                          (log_emotion_analysis (from_user_id m) es (emit (AnalyzeEmotions (from_user_id m) txt) w))))
           | Inr (Some poem) \<Rightarrow> (Inr (), emit (Reply (GeneratedPoem poem)) (log_generation (from_user_id m) txt poem
                          (emit (GeneratePoem (from_user_id m) es)
                          (log_emotion_analysis (from_user_id m) es (emit (AnalyzeEmotions (from_user_id m) txt) w)))))))"
proof -
  have "txt \<noteq> []" using assms(1) by (rule split1_second_nonempty)
  then show ?thesis
    unfolding cmd_format_try_def unpack_command_def first_arg_def using assms
    by (simp split: sum.splits option.splits)
qed

text \<open>
  Claim C1. In \<^verbatim>\<open>cmd_format\<close>, when the call of the emotion service returns an empty
  result, the handler replies that the emotion service is unavailable and returns: the
  only events of the operation are that call and that reply, so the poetry client is
  not called, and the history store is left as it was.
\<close>

theorem cmd_format_emotion_unavailable:
  assumes "py_split_maxsplit1 (message_text m) = [command, txt]"
    and "get_emotion_api g = Inr ea" and "get_poetry_api g = Inr pa" and "get_database g = Inr d"
    and "analyze_emotions ea (from_user_id m) txt = Inr None"
  shows "trace (cmd_format g m w) =
           trace w @ [AnalyzeEmotions (from_user_id m) txt, Reply EmotionServiceUnavailable]
         \<and> store (cmd_format g m w) = store w"
proof -
  have "cmd_format_try g m w =
          (Inr (), emit (Reply EmotionServiceUnavailable) (emit (AnalyzeEmotions (from_user_id m) txt) w))"
    using assms by (simp add: cmd_format_try_called)
  then show ?thesis by (simp add: cmd_format_def emit_def)
qed

lemma split_generate_hi:
  "py_split_maxsplit1 (ascii ''/generate hi'') = [ascii ''/generate'', ascii ''hi'']"
  by (simp add: py_split_maxsplit1_def ascii_def py_isspace_def)

theorem cmd_format_emotion_unavailable_witness:
  "py_split_maxsplit1 (message_text (msg ''/generate hi'')) = [ascii ''/generate'', ascii ''hi'']
   \<and> analyze_emotions no_emotions (from_user_id (msg ''/generate hi'')) (ascii ''hi'') = Inr None
   \<and> trace (cmd_format (globals no_emotions poet) (msg ''/generate hi'') start) =
        [AnalyzeEmotions 7 (ascii ''hi''), Reply EmotionServiceUnavailable]
   \<and> store (cmd_format (globals no_emotions poet) (msg ''/generate hi'') start) = []"
  using cmd_format_emotion_unavailable [of "msg ''/generate hi''" "ascii ''/generate''" "ascii ''hi''"
      "globals no_emotions poet" no_emotions poet "\<lparr>check_health = healthy\<rparr>" start]
  by (simp add: msg_def split_generate_hi globals_def no_emotions_def start_def)

text \<open>
  Claim C2. In \<^verbatim>\<open>cmd_format\<close>, when the emotion service and the poetry service both
  return a response, the operation adds to the history store exactly one EmotionRecord
  and exactly one GenerationRecord, the EmotionRecord first.
\<close>

theorem cmd_format_logs_both_in_order:
  assumes "py_split_maxsplit1 (message_text m) = [command, txt]"
    and "get_emotion_api g = Inr ea" and "get_poetry_api g = Inr pa" and "get_database g = Inr d"
    and "analyze_emotions ea (from_user_id m) txt = Inr (Some es)"
    and "generate_poem pa (from_user_id m) es = Inr (Some poem)"
  shows "store (cmd_format g m w) =
           store w @ [EmotionRecord (from_user_id m) es (clock w),
                      GenerationRecord (from_user_id m) txt poem (clock w)]
         \<and> trace (cmd_format g m w) =
           trace w @ [AnalyzeEmotions (from_user_id m) txt, GeneratePoem (from_user_id m) es,
                      Reply (GeneratedPoem poem)]"
proof -
  have "cmd_format_try g m w =
          (Inr (), emit (Reply (GeneratedPoem poem)) (log_generation (from_user_id m) txt poem
             (emit (GeneratePoem (from_user_id m) es)
                (log_emotion_analysis (from_user_id m) es (emit (AnalyzeEmotions (from_user_id m) txt) w)))))"
    using assms by (simp add: cmd_format_try_called)
  then show ?thesis
    by (simp add: cmd_format_def emit_def log_emotion_analysis_def log_generation_def)
qed

lemma split_generate_very_happy:
  "py_split_maxsplit1 (ascii ''/generate very happy'') = [ascii ''/generate'', ascii ''very happy'']"
  by (simp add: py_split_maxsplit1_def ascii_def py_isspace_def)

theorem cmd_format_logs_both_in_order_witness:
  "py_split_maxsplit1 (message_text (msg ''/generate very happy'')) = [ascii ''/generate'', ascii ''very happy'']
   \<and> analyze_emotions happy_sad 7 (ascii ''very happy'') = Inr (Some [(ascii ''happy'', 9 / 10), (ascii ''sad'', 1 / 10)])
   \<and> generate_poem poet 7 [(ascii ''happy'', 9 / 10), (ascii ''sad'', 1 / 10)] = Inr (Some (ascii ''Joy flows''))
   \<and> store (cmd_format (globals happy_sad poet) (msg ''/generate very happy'') start) =
        [EmotionRecord 7 [(ascii ''happy'', 9 / 10), (ascii ''sad'', 1 / 10)] 100,
         GenerationRecord 7 (ascii ''very happy'') (ascii ''Joy flows'') 100]
   \<and> trace (cmd_format (globals happy_sad poet) (msg ''/generate very happy'') start) =
        [AnalyzeEmotions 7 (ascii ''very happy''),
         GeneratePoem 7 [(ascii ''happy'', 9 / 10), (ascii ''sad'', 1 / 10)],
         Reply (GeneratedPoem (ascii ''Joy flows''))]"
  using cmd_format_logs_both_in_order [of "msg ''/generate very happy''" "ascii ''/generate''"
      "ascii ''very happy''" "globals happy_sad poet" happy_sad poet "\<lparr>check_health = healthy\<rparr>"
      "[(ascii ''happy'', 9 / 10), (ascii ''sad'', 1 / 10)]" "ascii ''Joy flows''" start]
  by (simp add: msg_def split_generate_very_happy globals_def happy_sad_def poet_def start_def)

text \<open>
  Claim C3. In \<^verbatim>\<open>cmd_format\<close>, when the emotion service returns a response and the call
  of the poetry service returns an empty result, the handler replies that the poetry
  service is unavailable; no GenerationRecord is written, and the EmotionRecord written
  before the call stays in the history store.
\<close>

theorem cmd_format_poetry_unavailable:
  assumes "py_split_maxsplit1 (message_text m) = [command, txt]"
    and "get_emotion_api g = Inr ea" and "get_poetry_api g = Inr pa" and "get_database g = Inr d"
    and "analyze_emotions ea (from_user_id m) txt = Inr (Some es)"
    and "generate_poem pa (from_user_id m) es = Inr None"
  shows "trace (cmd_format g m w) =
           trace w @ [AnalyzeEmotions (from_user_id m) txt, GeneratePoem (from_user_id m) es,
                      Reply PoetryServiceUnavailable]
         \<and> store (cmd_format g m w) = store w @ [EmotionRecord (from_user_id m) es (clock w)]"
proof -
  have "cmd_format_try g m w =
          (Inr (), emit (Reply PoetryServiceUnavailable) (emit (GeneratePoem (from_user_id m) es)
             (log_emotion_analysis (from_user_id m) es (emit (AnalyzeEmotions (from_user_id m) txt) w))))"
    using assms by (simp add: cmd_format_try_called)
  then show ?thesis
    by (simp add: cmd_format_def emit_def log_emotion_analysis_def)
qed

theorem cmd_format_poetry_unavailable_witness:
  "py_split_maxsplit1 (message_text (msg ''/generate very happy'')) = [ascii ''/generate'', ascii ''very happy'']
   \<and> analyze_emotions happy_sad 7 (ascii ''very happy'') = Inr (Some [(ascii ''happy'', 9 / 10), (ascii ''sad'', 1 / 10)])
   \<and> generate_poem no_poet 7 [(ascii ''happy'', 9 / 10), (ascii ''sad'', 1 / 10)] = Inr None
   \<and> trace (cmd_format (globals happy_sad no_poet) (msg ''/generate very happy'') start) =
        [AnalyzeEmotions 7 (ascii ''very happy''),
         GeneratePoem 7 [(ascii ''happy'', 9 / 10), (ascii ''sad'', 1 / 10)],
         Reply PoetryServiceUnavailable]
   \<and> store (cmd_format (globals happy_sad no_poet) (msg ''/generate very happy'') start) =
        [EmotionRecord 7 [(ascii ''happy'', 9 / 10), (ascii ''sad'', 1 / 10)] 100]"
  using cmd_format_poetry_unavailable [of "msg ''/generate very happy''" "ascii ''/generate''"
      "ascii ''very happy''" "globals happy_sad no_poet" happy_sad no_poet "\<lparr>check_health = healthy\<rparr>"
      "[(ascii ''happy'', 9 / 10), (ascii ''sad'', 1 / 10)]" start]
  by (simp add: msg_def split_generate_very_happy globals_def happy_sad_def no_poet_def start_def)

lemma split1_command_only:
  assumes "cmd \<noteq> []" and "\<forall>c\<in>set cmd. \<not> py_isspace c"
    and "\<forall>c\<in>set ws1. py_isspace c" and "\<forall>c\<in>set ws2. py_isspace c"
  shows "py_split_maxsplit1 (ws1 @ cmd @ ws2) = [cmd]"
proof -
  obtain c cs where cmd: "cmd = c # cs"
    using assms(1) by (cases cmd) auto
  have nc: "\<not> py_isspace c"
    using assms(2) cmd by simp
  have a: "dropWhile py_isspace (ws1 @ cmd @ ws2) = cmd @ ws2"
    using assms(3) nc cmd by (simp add: dropWhile_append2)
  have b: "takeWhile (\<lambda>c. \<not> py_isspace c) (cmd @ ws2) = cmd"
  proof (cases ws2)
    case Nil
    then show ?thesis using assms(2) by (simp add: takeWhile_eq_all_conv)
  next
    case (Cons x xs)
    then have "py_isspace x" using assms(4) by simp
    then show ?thesis using assms(2) Cons by (simp add: takeWhile_append2)
  qed
  have c: "dropWhile (\<lambda>c. \<not> py_isspace c) (cmd @ ws2) = ws2"
  proof (cases ws2)
    case Nil
    then show ?thesis using assms(2) by simp
  next
    case (Cons x xs)
    then have "py_isspace x" using assms(4) by simp
    then show ?thesis using assms(2) Cons by (simp add: dropWhile_append2)
  qed
  have d: "dropWhile py_isspace ws2 = []"
    using assms(4) by simp
  have e: "cmd @ ws2 \<noteq> []"
    using assms(1) by simp
  show ?thesis
    unfolding py_split_maxsplit1_def Let_def a b c d using e by simp
qed

section \<open>/emotions, and the missing argument\<close>


lemma cmd_try_no_argument:
  assumes "length (py_split_maxsplit1 (message_text m)) \<le> 1"
  shows "cmd_emotions_try g m w =
           (case py_split_maxsplit1 (message_text m) of
              [] \<Rightarrow> (Inl ValueError, w)
            | _ \<Rightarrow> (Inr (), emit (Reply (MissingArgument ''emotions'')) w))"
    and "cmd_format_try g m w =
           (case py_split_maxsplit1 (message_text m) of
              [] \<Rightarrow> (Inl ValueError, w)
            | _ \<Rightarrow> (Inr (), emit (Reply (MissingArgument ''generate'')) w))"
proof -
  define xs where "xs = py_split_maxsplit1 (message_text m)"
  have len: "length xs \<le> 1" using assms by (simp add: xs_def)
  show "cmd_emotions_try g m w =
           (case py_split_maxsplit1 (message_text m) of
              [] \<Rightarrow> (Inl ValueError, w)
            | _ \<Rightarrow> (Inr (), emit (Reply (MissingArgument ''emotions'')) w))"
    unfolding cmd_emotions_try_def unpack_command_def first_arg_def xs_def [symmetric]
    using len by (cases xs) (simp_all split: list.splits)
  show "cmd_format_try g m w =
           (case py_split_maxsplit1 (message_text m) of
              [] \<Rightarrow> (Inl ValueError, w)
            | _ \<Rightarrow> (Inr (), emit (Reply (MissingArgument ''generate'')) w))"
    unfolding cmd_format_try_def unpack_command_def first_arg_def xs_def [symmetric]
    using len by (cases xs) (simp_all split: list.splits)
qed

text \<open>
  Claim C7. When the text after the command is empty or only whitespace (the message
  is the command word, with whitespace around it at most), \<^verbatim>\<open>cmd_emotions\<close> and
  \<^verbatim>\<open>cmd_format\<close> reply with the missing-argument notice and do nothing else: no
  service client is called and the history store is not written. This holds whatever
  the global state is, since no getter is reached.
\<close>

theorem missing_argument_short_circuits:
  assumes "cmd \<noteq> []" and "\<forall>c\<in>set cmd. \<not> py_isspace c"
    and "\<forall>c\<in>set ws1. py_isspace c" and "\<forall>c\<in>set ws2. py_isspace c"
    and "message_text m = ws1 @ cmd @ ws2"
  shows "cmd_emotions g m w = w\<lparr>trace := trace w @ [Reply (MissingArgument ''emotions'')]\<rparr>
         \<and> cmd_format g m w = w\<lparr>trace := trace w @ [Reply (MissingArgument ''generate'')]\<rparr>"
proof -
  have split: "py_split_maxsplit1 (message_text m) = [cmd]"
    using assms by (simp add: split1_command_only)
  have "cmd_emotions_try g m w = (Inr (), emit (Reply (MissingArgument ''emotions'')) w)"
    using cmd_try_no_argument(1) [of m g w] split by simp
  moreover have "cmd_format_try g m w = (Inr (), emit (Reply (MissingArgument ''generate'')) w)"
    using cmd_try_no_argument(2) [of m g w] split by simp
  ultimately show ?thesis
    by (simp add: cmd_emotions_def cmd_format_def emit_def)
qed

theorem missing_argument_short_circuits_witness:
  "ascii ''/emotions'' \<noteq> [] \<and> list_all (\<lambda>c. \<not> py_isspace c) (ascii ''/emotions'')
   \<and> list_all py_isspace (ascii ''   '')
   \<and> message_text (msg ''/emotions   '') = [] @ ascii ''/emotions'' @ ascii ''   ''
   \<and> cmd_emotions (globals happy_sad poet) (msg ''/emotions   '') start =
        start\<lparr>trace := [Reply (MissingArgument ''emotions'')]\<rparr>
   \<and> cmd_format (globals happy_sad poet) (msg ''/emotions   '') start =
        start\<lparr>trace := [Reply (MissingArgument ''generate'')]\<rparr>"
  using missing_argument_short_circuits [of "ascii ''/emotions''" "[]" "ascii ''   ''"
      "msg ''/emotions   ''" "globals happy_sad poet" start]
  by (simp add: msg_def ascii_def py_isspace_def start_def)





section \<open>/history: the prevailing emotion\<close>

lemma max_from_first_maximal:
  "\<exists>i<length (best # xs). max_from key best xs = (best # xs) ! i
     \<and> (\<forall>j<length (best # xs). key ((best # xs) ! j) \<le> key ((best # xs) ! i))
     \<and> (\<forall>j<i. key ((best # xs) ! j) < key ((best # xs) ! i))"
proof (induction xs arbitrary: best)
  case Nil
  show ?case by simp
next
  case (Cons x xs)
  show ?case
  proof (cases "key best < key x")
    case True
    from Cons.IH [of x] obtain i where i: "i < length (x # xs)"
      "max_from key x xs = (x # xs) ! i"
      "\<forall>j<length (x # xs). key ((x # xs) ! j) \<le> key ((x # xs) ! i)"
      "\<forall>j<i. key ((x # xs) ! j) < key ((x # xs) ! i)"
      by blast
    have xle: "key x \<le> key ((x # xs) ! i)"
      using i(3) by (metis length_greater_0_conv list.distinct(1) nth_Cons_0)
    have "Suc i < length (best # x # xs)" using i(1) by simp
    moreover have "max_from key best (x # xs) = (best # x # xs) ! Suc i"
      using True i(2) by simp
    moreover have "\<forall>j<length (best # x # xs). key ((best # x # xs) ! j) \<le> key ((best # x # xs) ! Suc i)"
    proof (intro allI impI)
      fix j assume "j < length (best # x # xs)"
      then show "key ((best # x # xs) ! j) \<le> key ((best # x # xs) ! Suc i)"
        using True xle i(3) by (cases j) (auto simp: less_imp_le order.trans)
    qed
    moreover have "\<forall>j<Suc i. key ((best # x # xs) ! j) < key ((best # x # xs) ! Suc i)"
    proof (intro allI impI)
      fix j assume "j < Suc i"
      then show "key ((best # x # xs) ! j) < key ((best # x # xs) ! Suc i)"
        using True xle i(4) by (cases j) auto
    qed
    ultimately show ?thesis by blast
  next
    case False
    from Cons.IH [of best] obtain i where i: "i < length (best # xs)"
      "max_from key best xs = (best # xs) ! i"
      "\<forall>j<length (best # xs). key ((best # xs) ! j) \<le> key ((best # xs) ! i)"
      "\<forall>j<i. key ((best # xs) ! j) < key ((best # xs) ! i)"
      by blast
    have ble: "key best \<le> key ((best # xs) ! i)"
      using i(3) by (metis length_greater_0_conv list.distinct(1) nth_Cons_0)
    show ?thesis
    proof (cases i)
      case 0
      have "0 < length (best # x # xs)" by simp
      moreover have "max_from key best (x # xs) = (best # x # xs) ! 0"
        using False i(2) 0 by simp
      moreover have "\<forall>j<length (best # x # xs). key ((best # x # xs) ! j) \<le> key ((best # x # xs) ! 0)"
      proof (intro allI impI)
        fix j assume j: "j < length (best # x # xs)"
        show "key ((best # x # xs) ! j) \<le> key ((best # x # xs) ! 0)"
        proof (cases j)
          case 0 then show ?thesis by simp
        next
          case (Suc k)
          show ?thesis
          proof (cases k)
            case 0 then show ?thesis using Suc False by simp
          next
            case (Suc l)
            then have "Suc l < length (best # xs)" using j \<open>j = Suc k\<close> by simp
            then have "key ((best # xs) ! Suc l) \<le> key ((best # xs) ! i)" using i(3) by blast
            then show ?thesis using \<open>j = Suc k\<close> Suc \<open>i = 0\<close> by simp
          qed
        qed
      qed
      ultimately show ?thesis by blast
    next
      case (Suc i')
      have "Suc i < length (best # x # xs)" using i(1) by simp
      moreover have "max_from key best (x # xs) = (best # x # xs) ! Suc i"
        using False i(2) Suc by simp
      moreover have "\<forall>j<length (best # x # xs). key ((best # x # xs) ! j) \<le> key ((best # x # xs) ! Suc i)"
      proof (intro allI impI)
        fix j assume j: "j < length (best # x # xs)"
        show "key ((best # x # xs) ! j) \<le> key ((best # x # xs) ! Suc i)"
        proof (cases j)
          case 0 then show ?thesis using ble Suc by simp
        next
          case (Suc k)
          show ?thesis
          proof (cases k)
            case 0 then show ?thesis using \<open>j = Suc k\<close> False ble \<open>i = Suc i'\<close> by simp
          next
            case (Suc l)
            then have "Suc l < length (best # xs)" using j \<open>j = Suc k\<close> by simp
            then have "key ((best # xs) ! Suc l) \<le> key ((best # xs) ! i)" using i(3) by blast
            then show ?thesis using \<open>j = Suc k\<close> Suc \<open>i = Suc i'\<close> by simp
          qed
        qed
      qed
      moreover have "\<forall>j<Suc i. key ((best # x # xs) ! j) < key ((best # x # xs) ! Suc i)"
      proof (intro allI impI)
        fix j assume j: "j < Suc i"
        have b0: "key best < key ((best # xs) ! i)"
          using i(4) Suc by (metis nth_Cons_0 zero_less_Suc)
        show "key ((best # x # xs) ! j) < key ((best # x # xs) ! Suc i)"
        proof (cases j)
          case 0 then show ?thesis using b0 Suc by simp
        next
          case (Suc k)
          show ?thesis
          proof (cases k)
            case 0 then show ?thesis using \<open>j = Suc k\<close> False b0 \<open>i = Suc i'\<close> by simp
          next
            case (Suc l)
            then have "Suc l < i" using j \<open>j = Suc k\<close> by simp
            then have "key ((best # xs) ! Suc l) < key ((best # xs) ! i)" using i(4) by blast
            then show ?thesis using \<open>j = Suc k\<close> Suc \<open>i = Suc i'\<close> by simp
          qed
        qed
      qed
      ultimately show ?thesis by blast
    qed
  qed
qed

text \<open>
  Claim C9. For a non-empty emotions mapping of a retrieved EmotionRecord, the history
  listing takes as the prevailing emotion an item of maximal score, and among the items
  of that score the first in the iteration order of the mapping: every item scores at
  most as much, every earlier item strictly less. The loop of \<^verbatim>\<open>cmd_history\<close> puts
  this item into the entry of the record.
\<close>

theorem prevailing_emotion_first_maximal:
  assumes "es \<noteq> []"
  shows "\<exists>i<length es.
           top_emotion es = Inr (es ! i)
           \<and> (\<forall>j<length es. snd (es ! j) \<le> snd (es ! i))
           \<and> (\<forall>j<i. snd (es ! j) < snd (es ! i))
           \<and> format_emotions idx (EmotionRecord u es t # rest) =
               (case format_emotions (Suc idx) rest of
                  Inl e \<Rightarrow> Inl e
                | Inr entries \<Rightarrow> Inr ((idx, t, es ! i) # entries))"
proof -
  obtain x xs where es: "es = x # xs"
    using assms by (cases es) auto
  obtain i where i: "i < length (x # xs)" "max_from snd x xs = (x # xs) ! i"
      "\<forall>j<length (x # xs). snd ((x # xs) ! j) \<le> snd ((x # xs) ! i)"
      "\<forall>j<i. snd ((x # xs) ! j) < snd ((x # xs) ! i)"
    using max_from_first_maximal [of x xs snd] by blast
  have top: "top_emotion es = Inr (es ! i)"
    using i(2) es by (simp add: top_emotion_def py_max_def)
  have "format_emotions idx (EmotionRecord u es t # rest) =
               (case format_emotions (Suc idx) rest of
                  Inl e \<Rightarrow> Inl e
                | Inr entries \<Rightarrow> Inr ((idx, t, es ! i) # entries))"
    using top by (simp split: sum.splits)
  then show ?thesis
    using i(1,3,4) top es by blast
qed

lemma top_emotion_tied:
  "top_emotion tied = Inr (ascii ''happy'', 9 / 10)"
  by (simp add: top_emotion_def py_max_def tied_def)

theorem prevailing_emotion_first_maximal_witness:
  "tied \<noteq> []
   \<and> top_emotion tied = Inr (tied ! 1)
   \<and> tied ! 1 = (ascii ''happy'', 9 / 10) \<and> tied ! 2 = (ascii ''surprise'', 9 / 10)
   \<and> format_emotions 1 [EmotionRecord 7 tied 100] = Inr [(1, 100, ascii ''happy'', 9 / 10)]"
  using prevailing_emotion_first_maximal [of tied 1 7 100 "[]"]
  by (simp add: top_emotion_tied) (simp add: tied_def)

lemma format_emotions_empty_mapping:
  assumes "\<forall>r\<in>set rows. is_emotion_of uid r" and "\<exists>r\<in>set rows. emotions r = []"
  shows "format_emotions idx rows = Inl ValueError"
  using assms
proof (induction rows arbitrary: idx)
  case Nil
  then show ?case by simp
next
  case (Cons r rows)
  show ?case
  proof (cases r)
    case (EmotionRecord u es t)
    show ?thesis
    proof (cases es)
      case Nil
      then show ?thesis using EmotionRecord by (simp add: top_emotion_def py_max_def)
    next
      case (Cons x xs)
      then have "\<exists>r\<in>set rows. emotions r = []"
        using Cons.prems(2) EmotionRecord by simp
      moreover have "\<forall>r\<in>set rows. is_emotion_of uid r"
        using Cons.prems(1) by simp
      ultimately have "format_emotions (Suc idx) rows = Inl ValueError"
        by (rule Cons.IH [rotated])
      then show ?thesis
        using EmotionRecord Cons by (simp add: top_emotion_def py_max_def)
    qed
  next
    case (GenerationRecord u req resp t)
    then show ?thesis using Cons.prems(1) by simp
  qed
qed

lemma emotion_rows_are_emotions:
  "\<forall>r\<in>set (emotion_rows (get_user_history uid limit st)). is_emotion_of uid r"
proof
  fix r assume "r \<in> set (emotion_rows (get_user_history uid limit st))"
  then have "r \<in> set (rev (filter (is_emotion_of uid) st))"
    unfolding get_user_history_def by (auto dest: in_set_takeD)
  then show "is_emotion_of uid r" by simp
qed

text \<open>
  Claim C10. If one of the retrieved EmotionRecords has an empty emotions mapping,
  \<^verbatim>\<open>cmd_history\<close> produces no listing: \<^verbatim>\<open>max\<close> raises \<^verbatim>\<open>ValueError\<close> on the empty
  mapping, the \<^verbatim>\<open>except\<close> block catches it, logs it and replies with the notice that
  the history could not be loaded.
\<close>

theorem cmd_history_empty_mapping_fails:
  assumes "history_limit (tl (py_split (message_text m))) = Inr limit"
    and "get_database g = Inr d"
    and "r \<in> set (emotion_rows (get_user_history (from_user_id m) limit (store w)))"
    and "emotions r = []"
  shows "cmd_history g m w =
           w\<lparr>trace := trace w @ [GetUserHistory (from_user_id m) limit,
                                  LogError (HistoryErrorLog ValueError), Reply HistoryError]\<rparr>"
proof -
  have ne: "emotion_rows (get_user_history (from_user_id m) limit (store w)) \<noteq> []"
    using assms(3) by auto
  have "format_emotions 1 (emotion_rows (get_user_history (from_user_id m) limit (store w))) = Inl ValueError"
    using emotion_rows_are_emotions [of "from_user_id m" limit "store w"] assms(3,4)
    by (intro format_emotions_empty_mapping [of _ "from_user_id m"]) auto
  then have "cmd_history_try g m w = (Inl ValueError, emit (GetUserHistory (from_user_id m) limit) w)"
    unfolding cmd_history_try_def Let_def
    using assms(1,2) ne by simp
  then show ?thesis
    by (simp add: cmd_history_def emit_def)
qed

lemma split_history_alone:
  "py_split (ascii ''/history'') = [ascii ''/history'']"
  by (simp add: py_split.simps ascii_def py_isspace_def)

theorem cmd_history_empty_mapping_fails_witness:
  "history_limit (tl (py_split (message_text (msg ''/history'')))) = Inr 5
   \<and> EmotionRecord 7 [] 100 \<in> set (emotion_rows (get_user_history (from_user_id (msg ''/history'')) 5 (store logged_blank)))
   \<and> emotions (EmotionRecord 7 [] 100) = []
   \<and> cmd_history (globals happy_sad poet) (msg ''/history'') logged_blank =
        logged_blank\<lparr>trace := [GetUserHistory 7 5, LogError (HistoryErrorLog ValueError), Reply HistoryError]\<rparr>"
  using cmd_history_empty_mapping_fails [of "msg ''/history''" 5 "globals happy_sad poet"
      "\<lparr>check_health = healthy\<rparr>" "EmotionRecord 7 [] 100" logged_blank]
  by (simp add: msg_def split_history_alone history_limit_def get_user_history_def logged_blank_def
      globals_def)

section \<open>/history: the limit\<close>

lemma decimal_value_ascii:
  assumes "48 \<le> c" and "c \<le> 57"
  shows "py_decimal_value c = Some (c - 48)"
  using assms by (simp add: py_decimal_value_def decimal_starts_def)

lemma minus_sign_not_digit:
  "\<not> py_isdigit_char 45"
  by (simp add: py_isdigit_char_def py_decimal_value_def decimal_starts_def other_digit_ranges_def)

lemma digits_value_ascii:
  assumes "\<forall>c\<in>set s. 48 \<le> c \<and> c \<le> 57"
  shows "digits_value acc s = Some (foldl (\<lambda>n c. 10 * n + (int c - 48)) acc s)"
  using assms
proof (induction s arbitrary: acc)
  case Nil
  show ?case by simp
next
  case (Cons c s)
  then have c: "48 \<le> c" "c \<le> 57" by simp_all
  have "int (c - 48) = int c - 48" using c by simp
  then show ?case
    using Cons c by (simp add: decimal_value_ascii)
qed

lemma digits_value_lower:
  assumes "digits_value acc s = Some n" and "0 \<le> acc"
  shows "0 \<le> n"
  using assms
proof (induction s arbitrary: acc)
  case Nil
  then show ?case by simp
next
  case (Cons c s)
  then obtain d where d: "py_decimal_value c = Some d"
    and rest: "digits_value (10 * acc + int d) s = Some n"
    by (auto split: option.splits)
  have "0 \<le> 10 * acc + int d" using Cons.prems(2) by simp
  with rest show ?case by (rule Cons.IH)
qed

lemma history_limit_range:
  assumes "history_limit args = Inr n"
  shows "0 \<le> n \<and> n \<le> 20"
proof (cases args)
  case Nil
  then show ?thesis using assms by (simp add: history_limit_def)
next
  case (Cons a rest)
  show ?thesis
  proof (cases "py_isdigit a")
    case False
    then show ?thesis using assms Cons by (simp add: history_limit_def)
  next
    case True
    then obtain k where k: "digits_value 0 a = Some k" and n: "n = min k 20"
      using assms Cons
      by (auto simp add: history_limit_def py_int_def split: option.splits if_splits)
    have "0 \<le> k" using k by (rule digits_value_lower) simp
    then show ?thesis using n by simp
  qed
qed

text \<open>
  Claim C6, as amended. The limit of \<^verbatim>\<open>cmd_history\<close> is 5 when the argument is missing
  or is not made of digit characters, a leading minus sign included; an argument of
  the decimal digits \<^verbatim>\<open>0\<close> to \<^verbatim>\<open>9\<close> that reads \<open>n\<close> gives \<open>min n 20\<close>; and every
  limit the handler computes lies in the closed range from 0 to 20.
\<close>

theorem history_limit_cases:
  "history_limit [] = Inr 5
   \<and> (\<not> py_isdigit a \<longrightarrow> history_limit (a # rest) = Inr 5)
   \<and> history_limit ((45 # s) # rest) = Inr 5
   \<and> (d \<noteq> [] \<and> (\<forall>c\<in>set d. 48 \<le> c \<and> c \<le> 57)
        \<longrightarrow> history_limit (d # rest) = Inr (min (ascii_decimal d) 20))
   \<and> (history_limit args = Inr n \<longrightarrow> 0 \<le> n \<and> n \<le> 20)"
proof (intro conjI impI)
  show "history_limit [] = Inr 5"
    by (simp add: history_limit_def)
  show "history_limit (a # rest) = Inr 5" if "\<not> py_isdigit a"
    using that by (simp add: history_limit_def)
  show "history_limit ((45 # s) # rest) = Inr 5"
    using minus_sign_not_digit by (simp add: history_limit_def py_isdigit_def)
  show "history_limit (d # rest) = Inr (min (ascii_decimal d) 20)"
    if h: "d \<noteq> [] \<and> (\<forall>c\<in>set d. 48 \<le> c \<and> c \<le> 57)"
  proof -
    have "\<forall>c\<in>set d. py_isdigit_char c"
      using h by (auto simp add: py_isdigit_char_def decimal_value_ascii)
    then have "py_isdigit d"
      using h by (simp add: py_isdigit_def list_all_iff)
    moreover have "py_int d = Inr (ascii_decimal d)"
      using h digits_value_ascii [of d 0] by (simp add: py_int_def ascii_decimal_def)
    ultimately show ?thesis
      by (simp add: history_limit_def)
  qed
  show "0 \<le> n" "n \<le> 20" if "history_limit args = Inr n"
    using history_limit_range [OF that] by simp_all
qed

lemma split_history_zero:
  "py_split (ascii ''/history 0'') = [ascii ''/history'', ascii ''0'']"
  by (simp add: py_split.simps ascii_def py_isspace_def)

text \<open>
  Claim C6 as stated fails: the argument \<^verbatim>\<open>0\<close> is a digit string, so the limit of
  \<^verbatim>\<open>/history 0\<close> is \<open>min 0 20 = 0\<close>, not the default 5, and lies below 5.
\<close>

theorem history_limit_zero:
  "history_limit (tl (py_split (ascii ''/history 0''))) = Inr 0
   \<and> history_limit (tl (py_split (ascii ''/history 0''))) \<noteq> Inr 5"
proof -
  have "ascii ''0'' = [48]" by (simp add: ascii_def)
  then have "history_limit [ascii ''0''] = Inr 0"
    by (simp add: history_limit_def py_isdigit_def py_isdigit_char_def py_int_def
        py_decimal_value_def decimal_starts_def)
  then show ?thesis by (simp add: split_history_zero)
qed

theorem history_limit_cases_witness:
  "\<not> py_isdigit (ascii ''abc'') \<and> history_limit [ascii ''abc''] = Inr 5
   \<and> history_limit [ascii ''-3''] = Inr 5
   \<and> ascii ''100'' \<noteq> [] \<and> list_all (\<lambda>c. 48 \<le> c \<and> c \<le> 57) (ascii ''100'')
   \<and> history_limit [ascii ''100''] = Inr 20
   \<and> history_limit [ascii ''7''] = Inr 7
   \<and> (0::int) \<le> 7 \<and> (7::int) \<le> 20"
proof -
  have nd: "\<not> py_isdigit (ascii ''abc'')"
    by (simp add: ascii_def py_isdigit_def py_isdigit_char_def py_decimal_value_def
        decimal_starts_def other_digit_ranges_def)
  have d100: "ascii ''100'' \<noteq> [] \<and> (\<forall>c\<in>set (ascii ''100''). 48 \<le> c \<and> c \<le> 57)"
    by (simp add: ascii_def)
  have seven: "history_limit [ascii ''7''] = Inr 7"
    by (simp add: ascii_def history_limit_def py_isdigit_def py_isdigit_char_def py_int_def
        py_decimal_value_def decimal_starts_def)
  have v100: "ascii_decimal (ascii ''100'') = 100"
    by (simp add: ascii_def ascii_decimal_def)
  have minus: "ascii ''-3'' = 45 # ascii ''3''"
    by (simp add: ascii_def)
  show ?thesis
    using history_limit_cases [of "ascii ''abc''" "[]" "ascii ''3''" "ascii ''100''" "[ascii ''7'']" 7]
      nd d100 seven v100 minus by (simp add: list_all_iff)
qed

section \<open>/health: the aggregator\<close>

lemma check_service_status:
  "fst (check_service name p sw) =
     (fst sw)(name := (if wait_for p 10 = Inr True then Success else Error))"
  by (cases "wait_for p 10") (auto simp add: check_service_def Let_def)

lemma check_service_trace_last:
  "\<exists>evs. trace (snd (check_service name p sw)) = trace (snd sw) @ evs"
  by (cases "wait_for p 10") (auto simp add: check_service_def Let_def update_message_def emit_def)

lemma gather_status:
  "fst (gather chk schedule sw) n =
     (if n \<in> set schedule
      then (if wait_for (chk n) 10 = Inr True then Success else Error)
      else fst sw n)"
proof (induction schedule arbitrary: sw)
  case Nil
  show ?case by simp
next
  case (Cons name rest)
  show ?case
    by (simp add: Cons.IH check_service_status)
qed



lemma set_service_order:
  "n \<in> set service_order"
  by (cases n) (simp_all add: service_order_def)

lemma cmd_health_settled:
  assumes "get_emotion_api g = Inr ea" and "get_poetry_api g = Inr pa" and "get_database g = Inr db"
  shows "cmd_health_try g schedule sw =
           (Inr (),
            fst (gather (service_checker ea pa db) schedule
                   (fst sw, update_message (fst sw) (emit (React THINK) (snd sw)))),
            emit (React (final_emoji (fst (gather (service_checker ea pa db) schedule
                   (fst sw, update_message (fst sw) (emit (React THINK) (snd sw)))))))
              (snd (gather (service_checker ea pa db) schedule
                   (fst sw, update_message (fst sw) (emit (React THINK) (snd sw))))))"
  using assms by (simp add: cmd_health_try_def Let_def)

lemma cmd_health_result:
  assumes "get_emotion_api g = Inr ea" and "get_poetry_api g = Inr pa" and "get_database g = Inr db"
    and "set schedule = set service_order"
  shows "fst (cmd_health g m schedule w) n =
           (if wait_for (service_checker ea pa db n) 10 = Inr True then Success else Error)"
    and "last (trace (snd (cmd_health g m schedule w))) = React (final_emoji (fst (cmd_health g m schedule w)))"
proof -
  have n: "n \<in> set schedule"
    using assms(4) set_service_order by simp
  show "fst (cmd_health g m schedule w) n =
           (if wait_for (service_checker ea pa db n) 10 = Inr True then Success else Error)"
    using n by (simp add: cmd_health_def cmd_health_settled [OF assms(1-3)] gather_status)
  show "last (trace (snd (cmd_health g m schedule w))) = React (final_emoji (fst (cmd_health g m schedule w)))"
    by (simp add: cmd_health_def cmd_health_settled [OF assms(1-3)] emit_def)
qed


lemma health_all_well:
  "cmd_health_try (globals happy_sad poet) [Database, Poetry, Emotion]
      (\<lambda>name. Checking, emit (Reply HealthChecking) start) =
   (Inr (),
    (\<lambda>name. Checking)(Database := Success, Poetry := Success, Emotion := Success),
    start\<lparr>trace :=
      [Reply HealthChecking, React THINK,
       EditText (StatusTable [(HOURGLASS, Emotion), (HOURGLASS, Poetry), (HOURGLASS, Database)]),
       EditText (StatusTable [(HOURGLASS, Emotion), (HOURGLASS, Poetry), (CHECK_MARK, Database)]),
       EditText (StatusTable [(HOURGLASS, Emotion), (CHECK_MARK, Poetry), (CHECK_MARK, Database)]),
       EditText (StatusTable [(CHECK_MARK, Emotion), (CHECK_MARK, Poetry), (CHECK_MARK, Database)]),
       React THUMBS_UP]\<rparr>)"
  by (simp add: cmd_health_try_def globals_def happy_sad_def poet_def healthy_def
      service_checker_def check_service_def wait_for_def update_message_def status_line_def
      service_order_def final_emoji_def emit_def start_def Let_def)



text \<open>
  Claim C5. In \<^verbatim>\<open>cmd_health\<close>, once all probes have settled, the closing reaction is
  the thumbs-up exactly when emotion, poetry and database all ended in \<open>Success\<close>; when
  a service ended in \<open>Error\<close> it is the thumbs-down. Every service has then one of
  these two states.
\<close>

theorem closing_signal_aggregates:
  assumes "get_emotion_api g = Inr ea" and "get_poetry_api g = Inr pa" and "get_database g = Inr db"
    and "set schedule = set service_order" and "distinct schedule"
  shows "(last (trace (snd (cmd_health g m schedule w))) = React THUMBS_UP \<longleftrightarrow>
            fst (cmd_health g m schedule w) Emotion = Success
            \<and> fst (cmd_health g m schedule w) Poetry = Success
            \<and> fst (cmd_health g m schedule w) Database = Success)
         \<and> ((\<exists>n. fst (cmd_health g m schedule w) n = Error) \<longrightarrow>
              last (trace (snd (cmd_health g m schedule w))) = React THUMBS_DOWN)
         \<and> (\<forall>n. fst (cmd_health g m schedule w) n = Success \<or> fst (cmd_health g m schedule w) n = Error)"
proof -
  note st = cmd_health_result(1) [OF assms(1-4)]
  note cl = cmd_health_result(2) [OF assms(1-4)]
  have up: "last (trace (snd (cmd_health g m schedule w))) = React THUMBS_UP \<longleftrightarrow>
            fst (cmd_health g m schedule w) Emotion = Success
            \<and> fst (cmd_health g m schedule w) Poetry = Success
            \<and> fst (cmd_health g m schedule w) Database = Success"
    unfolding cl by (simp add: final_emoji_def service_order_def)
  have down: "last (trace (snd (cmd_health g m schedule w))) = React THUMBS_DOWN"
    if "fst (cmd_health g m schedule w) n = Error" for n
  proof -
    have "n \<in> set service_order" by (rule set_service_order)
    moreover have "fst (cmd_health g m schedule w) n \<noteq> Success"
      using that by simp
    ultimately have "\<not> list_all (\<lambda>n. fst (cmd_health g m schedule w) n = Success) service_order"
      unfolding list_all_iff by blast
    then show ?thesis unfolding cl by (simp add: final_emoji_def)
  qed
  have terminal: "\<forall>n. fst (cmd_health g m schedule w) n = Success \<or> fst (cmd_health g m schedule w) n = Error"
    by (simp add: st)
  from up down terminal show ?thesis by blast
qed

theorem closing_signal_aggregates_witness:
  "set [Database, Poetry, Emotion] = set service_order \<and> distinct [Database, Poetry, Emotion]
   \<and> fst (cmd_health (globals happy_sad poet) (msg ''/health'') [Database, Poetry, Emotion] start) Emotion = Success
   \<and> fst (cmd_health (globals happy_sad poet) (msg ''/health'') [Database, Poetry, Emotion] start) Poetry = Success
   \<and> fst (cmd_health (globals happy_sad poet) (msg ''/health'') [Database, Poetry, Emotion] start) Database = Success
   \<and> last (trace (snd (cmd_health (globals happy_sad poet) (msg ''/health'') [Database, Poetry, Emotion] start)))
       = React THUMBS_UP"
proof -
  have perm: "set [Database, Poetry, Emotion] = set service_order"
    by (auto simp add: service_order_def)
  have run: "fst (cmd_health (globals happy_sad poet) (msg ''/health'') [Database, Poetry, Emotion] start) =
      (\<lambda>name. Checking)(Database := Success, Poetry := Success, Emotion := Success)"
    by (simp add: cmd_health_def health_all_well)
  have getters: "get_emotion_api (globals happy_sad poet) = Inr happy_sad"
      "get_poetry_api (globals happy_sad poet) = Inr poet"
      "get_database (globals happy_sad poet) = Inr \<lparr>check_health = healthy\<rparr>"
    by (simp_all add: globals_def)
  have once: "distinct [Database, Poetry, Emotion]"
    by simp
  show ?thesis
    using closing_signal_aggregates [OF getters perm once, of "msg ''/health''" start]
      perm
    by (simp add: run)
qed

end
